theory Spec2Isabelle
  imports Complex_Main "HOL-Library.Word" "HOL-Library.AList"
begin

section \<open>Exceptions and arrays\<close>

text \<open>
  A Python exception is a value: its class and the text \<open>str(e)\<close> gives. A call that
  may raise returns \<open>error + 'a\<close>, with \<open>Inl\<close> the raised exception. \<open>LibraryError\<close>
  stands for the exception classes of the libraries (\<open>cv2.error\<close>, \<open>OSError\<close>,
  \<open>requests.RequestException\<close>, ...), which the code never tells apart.
\<close>

datatype exc_class =
  IndexError | KeyError | TypeError | ValueError | ZeroDivisionError | JSONDecodeError
  | LibraryError

datatype error = Raised exc_class string

fun str :: "error \<Rightarrow> string" where
  "str (Raised c msg) = msg"

fun exc_class_of :: "error \<Rightarrow> exc_class" where
  "exc_class_of (Raised c msg) = c"

definition try_bind :: "error + 'a \<Rightarrow> ('a \<Rightarrow> error + 'b) \<Rightarrow> error + 'b" where
  "try_bind m f = (case m of Inl e \<Rightarrow> Inl e | Inr x \<Rightarrow> f x)"

text \<open>
  A numpy array is its shape and its buffer in row-major order. A numpy float is a real
  number, infinity or NaN; floating-point rounding is not modelled, arithmetic is exact.
\<close>

record 'a ndarray =
  shape :: "nat list"
  data :: "'a list"

datatype npfloat = Finite real | Inf | NaN

section \<open>models/preprocessing.py: preprocess_image\<close>

text \<open>
  The decoded image, as PIL holds it: a mode, which fixes the number of bands, the size
  as PIL gives it, \<open>(width, height)\<close>, and the samples by column, row and band. The
  modes are those of 8-bit samples that a PNG or JPEG file opens in.
\<close>

datatype pil_mode = Mode_L | Mode_LA | Mode_P | Mode_RGB | Mode_RGBA | Mode_CMYK

fun bands :: "pil_mode \<Rightarrow> nat" where
  "bands Mode_L = 1"
| "bands Mode_LA = 2"
| "bands Mode_P = 1"
| "bands Mode_RGB = 3"
| "bands Mode_RGBA = 4"
| "bands Mode_CMYK = 4"

record pil_image =
  mode :: pil_mode
  pil_size :: "nat \<times> nat"
  getpixel :: "nat \<Rightarrow> nat \<Rightarrow> nat \<Rightarrow> 8 word"

text \<open>
  The two library calls that read the file: \<open>Image.open\<close>, and the resampling filter
  that \<open>Image.resize\<close> runs (it also decodes the file, which \<open>Image.open\<close> leaves for
  later, so it can fail). The filter is given the source image and the requested width
  and height and yields the samples of the new image.
\<close>

record pil =
  Image_open :: "string \<Rightarrow> error + pil_image"
  resample :: "pil_image \<Rightarrow> nat \<Rightarrow> nat \<Rightarrow> error + (nat \<Rightarrow> nat \<Rightarrow> nat \<Rightarrow> 8 word)"

text \<open>
  \<open>img.resize(size)\<close>: PIL reads \<open>size\<close> as \<open>(width, height)\<close> and refuses a side that
  is not positive.
\<close>

definition resize :: "pil \<Rightarrow> pil_image \<Rightarrow> int \<times> int \<Rightarrow> error + pil_image" where
  "resize lib img sz =
     (case sz of (sw, sh) \<Rightarrow>
        if sw \<le> 0 \<or> sh \<le> 0 then Inl (Raised ValueError ''height and width must be > 0'')
        else try_bind (resample lib img (nat sw) (nat sh)) (\<lambda>px.
               Inr \<lparr>mode = mode img, pil_size = (nat sw, nat sh), getpixel = px\<rparr>))"

text \<open>
  \<open>np.array(img)\<close>: rows first, so the shape is \<open>(height, width)\<close> for an image of one
  band and \<open>(height, width, bands)\<close> otherwise.
\<close>

definition np_array :: "pil_image \<Rightarrow> 8 word ndarray" where
  "np_array img =
     (case pil_size img of (w, h) \<Rightarrow>
        let b = bands (mode img) in
        \<lparr>shape = (if b = 1 then [h, w] else [h, w, b]),
         data = concat (map (\<lambda>y. concat (map (\<lambda>x. map (\<lambda>c. getpixel img x y c) [0..<b])
                                              [0..<w])) [0..<h])\<rparr>)"

text \<open>\<open>np.stack([a, a, a], axis=-1)\<close> on an array of two dimensions.\<close>

definition stack3 :: "'a ndarray \<Rightarrow> 'a ndarray" where
  "stack3 a = \<lparr>shape = shape a @ [3], data = concat (map (\<lambda>v. [v, v, v]) (data a))\<rparr>"

text \<open>\<open>a[:, :, :3]\<close> on an array of three dimensions whose last one is \<open>k\<close>.\<close>

definition take3 :: "'a ndarray \<Rightarrow> 'a ndarray" where
  "take3 a =
     (let h = shape a ! 0; w = shape a ! 1; k = shape a ! 2; m = min 3 k in
      \<lparr>shape = [h, w, m],
       data = map (\<lambda>i. data a ! ((i div m) * k + i mod m)) [0..<h * w * m]\<rparr>)"

definition expand_dims0 :: "'a ndarray \<Rightarrow> 'a ndarray" where
  "expand_dims0 a = \<lparr>shape = 1 # shape a, data = data a\<rparr>"

text \<open>
  The body of \<open>preprocess_image\<close>. \<open>img_array.shape[2]\<close> raises on an array of fewer
  than three dimensions; \<open>np.array\<close> of a PIL image has two or three. The last line is
  \<open>img_array.astype('float32') / 255.0\<close>.
\<close>

definition preprocess_image_body :: "pil \<Rightarrow> string \<Rightarrow> int \<times> int \<Rightarrow> error + real ndarray" where
  "preprocess_image_body lib image_path target_sz =
     try_bind (Image_open lib image_path) (\<lambda>img.
     try_bind (resize lib img target_sz) (\<lambda>img.
     let img_array = np_array img in
     try_bind
       (if length (shape img_array) = 2 then Inr (stack3 img_array)
        else if length (shape img_array) < 3 then Inl (Raised IndexError ''tuple index out of range'')
        else if shape img_array ! 2 = 4 then Inr (take3 img_array)
        else Inr img_array) (\<lambda>img_array.
     let img_array = expand_dims0 img_array in
     Inr \<lparr>shape = shape img_array, data = map (\<lambda>v. real (unat v) / 255) (data img_array)\<rparr>)))"

text \<open>
  \<open>except Exception as e: logger.error(...); raise\<close>: the exception goes on to the
  caller unchanged.
\<close>

definition preprocess_image :: "pil \<Rightarrow> string \<Rightarrow> int \<times> int \<Rightarrow> error + real ndarray" where
  "preprocess_image lib image_path target_sz =
     (case preprocess_image_body lib image_path target_sz of
        Inl e \<Rightarrow> Inl e
      | Inr img_array \<Rightarrow> Inr img_array)"

section \<open>models/preprocessing.py: extract_features\<close>

text \<open>
  The argument is an array of \<open>uint8\<close> samples or of floating-point ones (\<open>float32\<close> or
  \<open>float64\<close>, which the code treats alike).
\<close>

datatype img_array = UInt8_array "8 word ndarray" | Float_array "real ndarray"

text \<open>
  The OpenCV calls of \<open>extract_features\<close>, each of which raises \<open>cv2.error\<close> on an
  array it does not accept. \<open>threshold\<close> is called with \<open>THRESH_BINARY_INV + THRESH_OTSU\<close>
  and \<open>findContours\<close> with \<open>RETR_EXTERNAL, CHAIN_APPROX_SIMPLE\<close>; only the sequence of
  contours is used of its result.
\<close>

datatype color_code = COLOR_RGB2BGR | COLOR_BGR2GRAY | COLOR_BGR2HSV

type_synonym contour = "(int \<times> int) list"

record cv2 =
  cvtColor :: "8 word ndarray \<Rightarrow> color_code \<Rightarrow> error + 8 word ndarray"
  threshold :: "8 word ndarray \<Rightarrow> real \<Rightarrow> real \<Rightarrow> error + real \<times> 8 word ndarray"
  findContours :: "8 word ndarray \<Rightarrow> error + contour list"
  contourArea :: "contour \<Rightarrow> error + real"
  arcLength :: "contour \<Rightarrow> bool \<Rightarrow> error + real"
  boundingRect :: "contour \<Rightarrow> error + int \<times> int \<times> int \<times> int"
  convexHull :: "contour \<Rightarrow> error + contour"

text \<open>\<open>img_array[0]\<close>: the first element along the first axis.\<close>

definition first_of_batch :: "'a ndarray \<Rightarrow> error + 'a ndarray" where
  "first_of_batch a =
     (if hd (shape a) = 0
      then Inl (Raised IndexError ''index 0 is out of bounds for axis 0 with size 0'')
      else Inr \<lparr>shape = tl (shape a), data = take (prod_list (tl (shape a))) (data a)\<rparr>)"

text \<open>
  \<open>(img * 255).astype(np.uint8)\<close>: the product is cut towards zero; a value outside
  \<open>0..255\<close> is reduced modulo 256 (what numpy does there depends on the platform).
\<close>

definition truncate :: "real \<Rightarrow> int" where
  "truncate x = (if 0 \<le> x then \<lfloor>x\<rfloor> else \<lceil>x\<rceil>)"

definition to_uint8 :: "real ndarray \<Rightarrow> 8 word ndarray" where
  "to_uint8 a = \<lparr>shape = shape a, data = map (\<lambda>v. word_of_int (truncate (v * 255))) (data a)\<rparr>"

text \<open>\<open>a[:, :, c]\<close>, flattened; numpy needs three dimensions and \<open>c\<close> within the third.\<close>

definition channel :: "'a ndarray \<Rightarrow> nat \<Rightarrow> error + 'a list" where
  "channel a c =
     (if length (shape a) < 3 then Inl (Raised IndexError ''too many indices for array'')
      else if shape a ! 2 \<le> c then Inl (Raised IndexError ''index is out of bounds for axis 2'')
      else let k = shape a ! 2; inner = prod_list (drop 3 (shape a)) in
           Inr (concat (map (\<lambda>i. take inner (drop ((i * k + c) * inner) (data a)))
                            [0..<shape a ! 0 * shape a ! 1])))"

text \<open>
  \<open>np.mean\<close> and \<open>np.std\<close> (the population standard deviation) of \<open>uint8\<close> samples;
  both give NaN, with a warning, on no samples.
\<close>

definition np_mean :: "8 word list \<Rightarrow> npfloat" where
  "np_mean xs =
     (if xs = [] then NaN else Finite ((\<Sum>x\<leftarrow>xs. real (unat x)) / real (length xs)))"

definition np_std :: "8 word list \<Rightarrow> npfloat" where
  "np_std xs =
     (if xs = [] then NaN
      else let m = (\<Sum>x\<leftarrow>xs. real (unat x)) / real (length xs) in
           Finite (sqrt ((\<Sum>x\<leftarrow>xs. (real (unat x) - m)\<^sup>2) / real (length xs))))"

text \<open>
  \<open>gray**2\<close> is an array of \<open>uint8\<close> again: each square is reduced modulo 256. \<open>np.sum\<close>
  adds the elements as \<open>uint64\<close>.
\<close>

definition np_square :: "8 word ndarray \<Rightarrow> 8 word ndarray" where
  "np_square a = \<lparr>shape = shape a, data = map (\<lambda>g. g * g) (data a)\<rparr>"

definition np_sum :: "8 word ndarray \<Rightarrow> nat" where
  "np_sum a = (\<Sum>x\<leftarrow>data a. unat x) mod 2 ^ 64"

text \<open>A numpy scalar divided by a Python integer: a zero divisor warns and gives inf or NaN.\<close>

definition np_true_divide :: "nat \<Rightarrow> nat \<Rightarrow> npfloat" where
  "np_true_divide s n =
     (if n = 0 then (if s = 0 then NaN else Inf) else Finite (real s / real n))"

text \<open>\<open>a / b\<close> on Python numbers raises on a zero divisor.\<close>

definition py_truediv :: "real \<Rightarrow> real \<Rightarrow> error + real" where
  "py_truediv a b =
     (if b = 0 then Inl (Raised ZeroDivisionError ''float division by zero'') else Inr (a / b))"

text \<open>
  \<open>max(contours, key=cv2.contourArea)\<close>: the key of every contour is computed, and the
  first contour of greatest key is kept.
\<close>

fun keyed :: "('a \<Rightarrow> error + real) \<Rightarrow> 'a list \<Rightarrow> error + ('a \<times> real) list" where
  "keyed f [] = Inr []"
| "keyed f (x # xs) =
     try_bind (f x) (\<lambda>k. try_bind (keyed f xs) (\<lambda>ks. Inr ((x, k) # ks)))"

fun max_from :: "'a \<Rightarrow> real \<Rightarrow> ('a \<times> real) list \<Rightarrow> 'a" where
  "max_from best k [] = best"
| "max_from best k ((x, kx) # rest) =
     (if kx > k then max_from x kx rest else max_from best k rest)"

definition max_key :: "('a \<Rightarrow> error + real) \<Rightarrow> 'a list \<Rightarrow> error + 'a" where
  "max_key f xs =
     try_bind (keyed f xs) (\<lambda>ks.
       case ks of
         [] \<Rightarrow> Inl (Raised ValueError ''max() arg is an empty sequence'')
       | (x, k) # rest \<Rightarrow> Inr (max_from x k rest))"

type_synonym 'v dict = "(string \<times> 'v) list"

record features =
  features_color :: "npfloat dict"
  features_texture :: "npfloat dict"
  features_shape :: "npfloat dict"
  features_error :: "string option"

text \<open>
  Lines 113 to 153 of the file: the image is picked out of the batch, brought to
  \<open>uint8\<close> and to BGR, then the colour and texture statistics are computed and the
  contours of the thresholded grey image are found.
\<close>

definition analyse :: "cv2 \<Rightarrow> img_array \<Rightarrow> error + npfloat dict \<times> npfloat dict \<times> contour list" where
  "analyse cv img_array =
     try_bind
       (case img_array of
          UInt8_array a \<Rightarrow>
            if length (shape a) = 4 then first_of_batch a else Inr a
        | Float_array a \<Rightarrow>
            try_bind (if length (shape a) = 4 then first_of_batch a else Inr a) (\<lambda>img.
            Inr (to_uint8 img))) (\<lambda>img.
     try_bind
       (if length (shape img) < 3 then Inl (Raised IndexError ''tuple index out of range'')
        else if shape img ! 2 = 3 then cvtColor cv img COLOR_RGB2BGR
        else Inr img) (\<lambda>img_bgr.
     try_bind (cvtColor cv img_bgr COLOR_BGR2GRAY) (\<lambda>gray.
     try_bind (cvtColor cv img_bgr COLOR_BGR2HSV) (\<lambda>img_hsv.
     try_bind (channel img_hsv 0) (\<lambda>hue.
     try_bind (channel img_hsv 1) (\<lambda>saturation.
     try_bind (channel img_hsv 2) (\<lambda>val.
     let hue_avg = np_mean hue;
         saturation_avg = np_mean saturation;
         value_avg = np_mean val in
     try_bind (channel img_hsv 0) (\<lambda>hue.
     try_bind (channel img_hsv 1) (\<lambda>saturation.
     try_bind (channel img_hsv 2) (\<lambda>val.
     let hue_std = np_std hue;
         saturation_std = np_std saturation;
         value_std = np_std val;
         texture_contrast = np_std (data gray) in
     try_bind
       (if length (shape gray) < 2 then Inl (Raised IndexError ''tuple index out of range'')
        else Inr (np_true_divide (np_sum (np_square gray)) (shape gray ! 0 * shape gray ! 1)))
       (\<lambda>texture_energy.
     try_bind (threshold cv gray 0 255) (\<lambda>(t, thresh).
     try_bind (findContours cv thresh) (\<lambda>contours.
     Inr ([(''hue_avg'', hue_avg), (''saturation_avg'', saturation_avg),
           (''value_avg'', value_avg), (''hue_std'', hue_std),
           (''saturation_std'', saturation_std), (''value_std'', value_std)],
          [(''contrast'', texture_contrast), (''energy'', texture_energy)],
          contours))))))))))))))"

text \<open>Lines 156 to 179: the five shape values, from the largest contour if there is one.\<close>

definition shape_features :: "cv2 \<Rightarrow> contour list \<Rightarrow> error + npfloat dict" where
  "shape_features cv contours =
     try_bind
       (if contours \<noteq> [] then
          try_bind (max_key (contourArea cv) contours) (\<lambda>largest_contour.
          try_bind (contourArea cv largest_contour) (\<lambda>area.
          try_bind (arcLength cv largest_contour True) (\<lambda>perimeter.
          try_bind
            (if perimeter > 0 then py_truediv (4 * pi * area) (perimeter\<^sup>2) else Inr 0)
            (\<lambda>circularity.
          try_bind (boundingRect cv largest_contour) (\<lambda>(x, y, w, h).
          try_bind (if h > 0 then py_truediv (real_of_int w) (real_of_int h) else Inr 0)
            (\<lambda>aspect_ratio.
          try_bind (convexHull cv largest_contour) (\<lambda>hull_contour.
          try_bind (contourArea cv hull_contour) (\<lambda>hull_area.
          try_bind (if hull_area > 0 then py_truediv area hull_area else Inr 0) (\<lambda>solidity.
          Inr (area, perimeter, circularity, aspect_ratio, solidity))))))))))
        else Inr (0, 0, 0, 0, 0))
       (\<lambda>(area, perimeter, circularity, aspect_ratio, solidity).
     Inr [(''area'', Finite area), (''perimeter'', Finite perimeter),
          (''circularity'', Finite circularity), (''aspect_ratio'', Finite aspect_ratio),
          (''solidity'', Finite solidity)])"

definition extract_features_body :: "cv2 \<Rightarrow> img_array \<Rightarrow> error + features" where
  "extract_features_body cv img_array =
     try_bind (analyse cv img_array) (\<lambda>(color, texture, contours).
     try_bind (shape_features cv contours) (\<lambda>shape_dict.
     Inr \<lparr>features_color = color, features_texture = texture,
          features_shape = shape_dict, features_error = None\<rparr>))"

text \<open>\<open>except Exception as e\<close>: the three mappings empty, and the message of the error.\<close>

definition extract_features :: "cv2 \<Rightarrow> img_array \<Rightarrow> features" where
  "extract_features cv img_array =
     (case extract_features_body cv img_array of
        Inr f \<Rightarrow> f
      | Inl e \<Rightarrow> \<lparr>features_color = [], features_texture = [], features_shape = [],
                  features_error = Some (str e)\<rparr>)"

section \<open>models/groq_integration.py\<close>

text \<open>
  A parsed JSON value, as \<open>json.loads\<close> returns it; \<open>JNull\<close> is Python's \<open>None\<close>, which
  is also what a function returns when it ends without a \<open>return\<close>.
\<close>

datatype json =
  JNull | JBool bool | JNum real | JStr string | JArr "json list" | JObj "(string \<times> json) list"

text \<open>The settings read from \<open>current_app.config\<close>; an unset key is the empty string.\<close>

record config =
  GROQ_API_KEY :: string
  GROQ_MODEL :: string
  UPLOAD_FOLDER :: string

text \<open>
  The request sent to the API: the prompt is fixed but for the class and the confidence
  written into it, so the request holds these two.
\<close>

record groq_request =
  url :: string
  authorization :: string
  request_model :: string
  prompt_class :: string
  prompt_confidence :: real
  timeout :: nat

record response =
  status_code :: int
  response_text :: string

text \<open>
  The network and the JSON parser: \<open>requests.post\<close> raises on a network failure or a
  timeout, \<open>json.loads\<close> raises \<open>JSONDecodeError\<close> on a text that is not JSON.
\<close>

record net =
  requests_post :: "groq_request \<Rightarrow> error + response"
  json_loads :: "string \<Rightarrow> error + json"

text \<open>\<open>v[key]\<close> and \<open>v[i]\<close> on a parsed value.\<close>

fun getitem_key :: "json \<Rightarrow> string \<Rightarrow> error + json" where
  "getitem_key (JObj kvs) k =
     (case map_of kvs k of Some v \<Rightarrow> Inr v | None \<Rightarrow> Inl (Raised KeyError k))"
| "getitem_key (JArr xs) k = Inl (Raised TypeError ''list indices must be integers or slices, not str'')"
| "getitem_key (JStr s) k = Inl (Raised TypeError ''string indices must be integers'')"
| "getitem_key v k = Inl (Raised TypeError ''object is not subscriptable'')"

fun getitem_index :: "json \<Rightarrow> nat \<Rightarrow> error + json" where
  "getitem_index (JArr xs) i =
     (if i < length xs then Inr (xs ! i) else Inl (Raised IndexError ''list index out of range''))"
| "getitem_index (JStr s) i =
     (if i < length s then Inr (JStr [s ! i]) else Inl (Raised IndexError ''string index out of range''))"
| "getitem_index (JObj kvs) i = Inl (Raised KeyError ''0'')"
| "getitem_index v i = Inl (Raised TypeError ''object is not subscriptable'')"

text \<open>\<open>s.find(c)\<close> and \<open>s.rfind(c)\<close>: the first and the last index of \<open>c\<close>, or -1.\<close>

fun str_find :: "string \<Rightarrow> char \<Rightarrow> int" where
  "str_find [] c = -1"
| "str_find (x # xs) c = (if x = c then 0 else (let r = str_find xs c in if r < 0 then -1 else r + 1))"

definition str_rfind :: "string \<Rightarrow> char \<Rightarrow> int" where
  "str_rfind s c = (let r = str_find (rev s) c in if r < 0 then -1 else int (length s) - 1 - r)"

text \<open>\<open>s[i:j]\<close> for \<open>0 \<le> i < j\<close>.\<close>

definition str_slice :: "string \<Rightarrow> int \<Rightarrow> int \<Rightarrow> string" where
  "str_slice s i j = take (nat (j - i)) (drop (nat i) s)"

fun digits :: "nat \<Rightarrow> string" where
  "digits n =
     (if n < 10 then [char_of (48 + n)] else digits (n div 10) @ [char_of (48 + n mod 10)])"

definition str_int :: "int \<Rightarrow> string" where
  "str_int i = (if i < 0 then CHR ''-'' # digits (nat (- i)) else digits (nat i))"

definition error_marker :: "string \<Rightarrow> json" where
  "error_marker msg = JObj [(''error'', JStr msg)]"

definition get_groq_analysis_body :: "config \<Rightarrow> net \<Rightarrow> string \<Rightarrow> real \<Rightarrow> error + json" where
  "get_groq_analysis_body cfg nt predicted_class confidence =
     (let api_key = GROQ_API_KEY cfg; model_name = GROQ_MODEL cfg in
      if api_key = [] then Inr JNull
      else
        try_bind
          (requests_post nt
             \<lparr>url = ''https://api.groq.com/openai/v1/chat/completions'',
              authorization = ''Bearer '' @ api_key, request_model = model_name,
              prompt_class = predicted_class, prompt_confidence = confidence,
              timeout = 30\<rparr>) (\<lambda>response.
        if status_code response = 200 then
          try_bind (json_loads nt (response_text response)) (\<lambda>response_data.
          try_bind (getitem_key response_data ''choices'') (\<lambda>choices.
          try_bind (getitem_index choices 0) (\<lambda>choice.
          try_bind (getitem_key choice ''message'') (\<lambda>message.
          try_bind (getitem_key message ''content'') (\<lambda>content.
          case content of
            JStr content \<Rightarrow>
              (case json_loads nt content of
                 Inr analysis \<Rightarrow> Inr analysis
               | Inl e \<Rightarrow>
                   if exc_class_of e = JSONDecodeError then
                     (let start_idx = str_find content CHR ''{'';
                          end_idx = str_rfind content CHR ''}'' + 1 in
                      if start_idx \<ge> 0 \<and> end_idx > start_idx then
                        (case json_loads nt (str_slice content start_idx end_idx) of
                           Inr analysis \<Rightarrow> Inr analysis
                         | Inl e' \<Rightarrow>
                             Inr (error_marker ''Failed to parse JSON from Groq response''))
                      else Inr JNull)
                   else Inl e)
          | _ \<Rightarrow>
              Inl (Raised TypeError ''the JSON object must be str, bytes or bytearray''))))))
        else
          Inr (error_marker (''API request failed with status code ''
                              @ str_int (status_code response)))))"

text \<open>The outer \<open>except Exception as e\<close>: an error marker with the message.\<close>

definition get_groq_analysis :: "config \<Rightarrow> net \<Rightarrow> string \<Rightarrow> real \<Rightarrow> json" where
  "get_groq_analysis cfg nt predicted_class confidence =
     (case get_groq_analysis_body cfg nt predicted_class confidence of
        Inr analysis \<Rightarrow> analysis
      | Inl e \<Rightarrow> error_marker (str e))"

section \<open>models/model.py\<close>

text \<open>
  A loaded model is what its \<open>predict\<close> does: from the input tensor to the rows of the
  output, or an exception.
\<close>

type_synonym keras_model = "real ndarray \<Rightarrow> error + real list list"

text \<open>
  Modelled from the spec: the model file \<open>static/models/model.h5\<close> is not among the
  sources. The spec has the lesion classifier map a normalised image to a probability
  distribution over the condition labels, so every entry of what \<open>predict\<close> returns lies
  between 0 and 1. The placeholder of \<open>create_dummy_model\<close> ends in a softmax layer and
  meets this as well.
\<close>

definition probability_rows :: "error + real list list \<Rightarrow> bool" where
  "probability_rows out =
     (case out of
        Inl e \<Rightarrow> True
      | Inr predictions \<Rightarrow> \<forall>row\<in>set predictions. \<forall>v\<in>set row. 0 \<le> v \<and> v \<le> 1)"

text \<open>
  What TensorFlow and the file system do at loading: \<open>load_model\<close> on the \<open>.h5\<close> file
  and on the SavedModel directory, whether that directory exists, \<open>compile\<close>, and the
  untrained network that \<open>tf.keras.Sequential\<close> builds.
\<close>

record tf =
  load_h5 :: "error + keras_model"
  compile :: "keras_model \<Rightarrow> error + unit"
  path_exists :: bool
  load_saved_model :: "error + keras_model"
  Sequential :: "error + keras_model"

definition create_dummy_model :: "tf \<Rightarrow> error + keras_model" where
  "create_dummy_model tfl =
     try_bind (Sequential tfl) (\<lambda>model.
     try_bind (compile tfl model) (\<lambda>u. Inr model))"

text \<open>
  The handler of a failed \<open>.h5\<close> load (lines 48 to 65) and the outermost handler (lines 69
  to 71), which returns a dummy model without storing it. The state is the global
  \<open>_model\<close>.
\<close>

definition load_fallback :: "tf \<Rightarrow> keras_model option \<Rightarrow> (error + keras_model) \<times> keras_model option" where
  "load_fallback tfl st =
     (case (if path_exists tfl then load_saved_model tfl else create_dummy_model tfl) of
        Inr m \<Rightarrow> (Inr m, Some m)
      | Inl e2 \<Rightarrow>
          (case create_dummy_model tfl of
             Inr m \<Rightarrow> (Inr m, Some m)
           | Inl e \<Rightarrow> (create_dummy_model tfl, st)))"

definition load_model :: "tf \<Rightarrow> keras_model option \<Rightarrow> (error + keras_model) \<times> keras_model option" where
  "load_model tfl st =
     (case st of
        Some m \<Rightarrow> (Inr m, st)
      | None \<Rightarrow>
          (case load_h5 tfl of
             Inr m \<Rightarrow>
               (case compile tfl m of
                  Inr u \<Rightarrow> (Inr m, Some m)
                | Inl e \<Rightarrow> load_fallback tfl (Some m))
           | Inl e \<Rightarrow> load_fallback tfl None))"

definition class_labels :: "string list" where
  "class_labels =
     [''actinic keratosis'', ''basal cell carcinoma'', ''dermatofibroma'', ''melanoma'',
      ''nevus'', ''pigmented benign keratosis'', ''seborrheic keratosis'',
      ''squamous cell carcinoma'', ''vascular lesion'']"

text \<open>\<open>xs[i]\<close> on a sequence, for an index that is not negative.\<close>

definition getitem :: "'a list \<Rightarrow> nat \<Rightarrow> error + 'a" where
  "getitem xs i =
     (if i < length xs then Inr (xs ! i) else Inl (Raised IndexError ''index out of range''))"

text \<open>\<open>np.argmax\<close>: the first index of the greatest element.\<close>

fun argmax_from :: "nat \<Rightarrow> real \<Rightarrow> nat \<Rightarrow> real list \<Rightarrow> nat" where
  "argmax_from best b i [] = best"
| "argmax_from best b i (x # xs) =
     (if x > b then argmax_from i x (Suc i) xs else argmax_from best b (Suc i) xs)"

definition np_argmax :: "real list \<Rightarrow> error + nat" where
  "np_argmax xs =
     (case xs of
        [] \<Rightarrow> Inl (Raised ValueError ''attempt to get argmax of an empty sequence'')
      | x # rest \<Rightarrow> Inr (argmax_from 0 x 1 rest))"

text \<open>
  \<open>round(x, ndigits)\<close>: to the nearest multiple of \<open>10 ^ (- ndigits)\<close>, a tie going to the
  even one.
\<close>

definition round_half_even :: "real \<Rightarrow> int" where
  "round_half_even x =
     (let f = \<lfloor>x\<rfloor>; d = x - of_int f in
      if d < 1 / 2 then f else if d > 1 / 2 then f + 1 else if even f then f else f + 1)"

definition py_round :: "real \<Rightarrow> nat \<Rightarrow> real" where
  "py_round x ndigits = of_int (round_half_even (x * 10 ^ ndigits)) / 10 ^ ndigits"

text \<open>
  \<open>{class_labels[i]: float(predictions[0][i]) for i in range(len(class_labels))}\<close>: a
  dictionary keeps the place of a key's first insertion and the value of its last.
\<close>

fun probabilities :: "real list \<Rightarrow> nat list \<Rightarrow> real dict \<Rightarrow> error + real dict" where
  "probabilities row [] acc = Inr acc"
| "probabilities row (i # rest) acc =
     try_bind (getitem class_labels i) (\<lambda>label.
     try_bind (getitem row i) (\<lambda>p.
     probabilities row rest (AList.update label p acc)))"

record prediction_result =
  prediction :: string
  confidence :: real
  class_index :: int
  all_probabilities :: "real dict"
  additional_analysis :: "json option"
  prediction_error :: "string option"

text \<open>
  The body of \<open>predict_image\<close>. The inner \<open>try\<close> around \<open>get_groq_analysis\<close> has no
  branch here: that function returns a value on every path. The key
  \<open>additional_analysis\<close> is present in this result and absent from the fallback one, the
  key \<open>error\<close> the other way round.
\<close>

definition predict_image_body ::
  "tf \<Rightarrow> config \<Rightarrow> net \<Rightarrow> keras_model option \<Rightarrow> real ndarray
     \<Rightarrow> (error + prediction_result) \<times> keras_model option" where
  "predict_image_body tfl cfg nt st image_array =
     (case load_model tfl st of
        (Inl e, st') \<Rightarrow> (Inl e, st')
      | (Inr model, st') \<Rightarrow>
          (try_bind (model image_array) (\<lambda>predictions.
           try_bind (getitem predictions 0) (\<lambda>row.
           try_bind (np_argmax row) (\<lambda>predicted_class_index.
           try_bind (getitem row predicted_class_index) (\<lambda>confidence.
           try_bind (getitem class_labels predicted_class_index) (\<lambda>predicted_class.
           let groq_api_key = GROQ_API_KEY cfg;
               analysis = (if groq_api_key \<noteq> []
                           then get_groq_analysis cfg nt predicted_class confidence
                           else JNull) in
           try_bind (probabilities row [0..<length class_labels] []) (\<lambda>probs.
           Inr \<lparr>prediction = predicted_class,
                confidence = py_round (confidence * 100) 2,
                class_index = int predicted_class_index,
                all_probabilities = probs,
                additional_analysis = Some analysis,
                prediction_error = None\<rparr>)))))), st'))"

definition predict_image ::
  "tf \<Rightarrow> config \<Rightarrow> net \<Rightarrow> keras_model option \<Rightarrow> real ndarray
     \<Rightarrow> prediction_result \<times> keras_model option" where
  "predict_image tfl cfg nt st image_array =
     (case predict_image_body tfl cfg nt st image_array of
        (Inr result, st') \<Rightarrow> (result, st')
      | (Inl e, st') \<Rightarrow>
          (\<lparr>prediction = ''unknown'', confidence = 0, class_index = - 1,
            all_probabilities = [], additional_analysis = None,
            prediction_error = Some (str e)\<rparr>, st'))"

section \<open>routes/diagnosis.py: upload\<close>

text \<open>
  The request is the name of the uploaded file, if there is a part \<open>file\<close>. The state of
  the application is the flashed messages, the entry \<open>diagnosis_result\<close> of the session
  and the global \<open>_model\<close>.
\<close>

record request =
  file_field :: "string option"

record diagnosis_result =
  filename :: string
  original_filename :: string
  result_prediction :: string
  result_confidence :: real
  timestamp :: string

record app =
  flashes :: "(string \<times> string) list"
  session_diagnosis_result :: "diagnosis_result option"
  model_slot :: "keras_model option"

datatype http_response = Redirect string

text \<open>
  What the handler takes from outside: \<open>allowed_file\<close> of \<open>utils/helpers.py\<close>,
  \<open>secure_filename\<close>, \<open>os.path.splitext\<close> and \<open>os.path.join\<close>, the identifier \<open>uuid4\<close>
  draws, \<open>file.save\<close> and the formatted time.
\<close>

record web =
  allowed_file :: "string \<Rightarrow> bool"
  secure_filename :: "string \<Rightarrow> string"
  splitext :: "string \<Rightarrow> string \<times> string"
  path_join :: "string \<Rightarrow> string \<Rightarrow> string"
  uuid4 :: string
  file_save :: "string \<Rightarrow> error + unit"
  now :: string

definition flash :: "string \<Rightarrow> string \<Rightarrow> app \<Rightarrow> app" where
  "flash message category st = st\<lparr>flashes := flashes st @ [(message, category)]\<rparr>"

text \<open>
  An exception that leaves the handler is \<open>Inl\<close>; only \<open>file.save\<close>, outside the \<open>try\<close>,
  can raise one.
\<close>

definition upload ::
  "web \<Rightarrow> pil \<Rightarrow> tf \<Rightarrow> config \<Rightarrow> net \<Rightarrow> request \<Rightarrow> app \<Rightarrow> error + http_response \<times> app" where
  "upload w lib tfl cfg nt req st =
     (case file_field req of
        None \<Rightarrow> Inr (Redirect ''diagnosis.index'', flash ''No file part'' ''error'' st)
      | Some file_name \<Rightarrow>
          if file_name = [] then
            Inr (Redirect ''diagnosis.index'', flash ''No selected file'' ''error'' st)
          else if file_name \<noteq> [] \<and> allowed_file w file_name then
            (let original = secure_filename w file_name;
                 file_extension = snd (splitext w original);
                 unique_filename = uuid4 w @ file_extension;
                 file_path = path_join w (UPLOAD_FOLDER cfg) unique_filename in
             try_bind (file_save w file_path) (\<lambda>u.
             case preprocess_image lib file_path (180, 180) of
               Inl e \<Rightarrow>
                 Inr (Redirect ''diagnosis.index'',
                      flash ''An error occurred during processing. Please try again.''
                        ''error'' st)
             | Inr preprocessed_image \<Rightarrow>
                 (case predict_image tfl cfg nt (model_slot st) preprocessed_image of
                    (prediction_result, slot) \<Rightarrow>
                      Inr (Redirect ''diagnosis.results'',
                           st\<lparr>model_slot := slot,
                              session_diagnosis_result :=
                                Some \<lparr>filename = unique_filename,
                                      original_filename = original,
                                      result_prediction = prediction prediction_result,
                                      result_confidence = confidence prediction_result,
                                      timestamp = now w\<rparr>\<rparr>))))
          else
            Inr (Redirect ''diagnosis.index'',
                 flash ''File type not allowed. Please upload a JPG, JPEG, or PNG image.''
                   ''error'' st))"

section \<open>Sample environments\<close>

text \<open>
  Concrete behaviours of the libraries, on which the functions above are evaluated: a
  file that opens as a uniform image of four by four pixels, and a file that does not
  open.
\<close>

definition uniform_pil :: "pil_mode \<Rightarrow> 8 word \<Rightarrow> pil" where
  "uniform_pil m v =
     \<lparr>Image_open = (\<lambda>path. Inr \<lparr>mode = m, pil_size = (4, 4), getpixel = (\<lambda>x y c. v)\<rparr>),
      resample = (\<lambda>img w h. Inr (getpixel img))\<rparr>"

definition unreadable_pil :: pil where
  "unreadable_pil =
     \<lparr>Image_open = (\<lambda>path. Inl (Raised LibraryError ''cannot identify image file'')),
      resample = (\<lambda>img w h. Inr (getpixel img))\<rparr>"

text \<open>
  OpenCV on one uniform image: its grey and HSV versions, its thresholded version (the
  threshold that Otsu's method finds on a uniform image is 0), the contours found there,
  and the measures of a contour (area, length, bounding rectangle), which is its own
  convex hull.
\<close>

definition sample_cv ::
  "8 word ndarray \<Rightarrow> 8 word ndarray \<Rightarrow> contour list \<Rightarrow> real \<Rightarrow> real
     \<Rightarrow> int \<times> int \<times> int \<times> int \<Rightarrow> cv2" where
  "sample_cv gray hsv contours area perimeter rect =
     \<lparr>cvtColor = (\<lambda>a code. case code of
                     COLOR_RGB2BGR \<Rightarrow> Inr a
                   | COLOR_BGR2GRAY \<Rightarrow> Inr gray
                   | COLOR_BGR2HSV \<Rightarrow> Inr hsv),
      threshold = (\<lambda>g t maxval.
                     Inr (0, \<lparr>shape = shape g,
                              data = map (\<lambda>v. if v > 0 then 0 else 255) (data g)\<rparr>)),
      findContours = (\<lambda>thresh. Inr contours),
      contourArea = (\<lambda>c. Inr area),
      arcLength = (\<lambda>c closed. Inr perimeter),
      boundingRect = (\<lambda>c. Inr rect),
      convexHull = (\<lambda>c. Inr c)\<rparr>"

text \<open>
  The API answering 200 with a chat completion whose message is the given text, and a
  parser that accepts the body of that answer only.
\<close>

definition chat_net :: "string \<Rightarrow> net" where
  "chat_net content =
     \<lparr>requests_post = (\<lambda>r. Inr \<lparr>status_code = 200, response_text = ''body''\<rparr>),
      json_loads = (\<lambda>s. if s = ''body''
                         then Inr (JObj [(''choices'',
                                JArr [JObj [(''message'', JObj [(''content'', JStr content)])]])])
                         else Inl (Raised JSONDecodeError ''Expecting value''))\<rparr>"

definition sample_config :: "string \<Rightarrow> config" where
  "sample_config key =
     \<lparr>GROQ_API_KEY = key, GROQ_MODEL = ''llama2-70b-4096'', UPLOAD_FOLDER = ''static/uploads''\<rparr>"

text \<open>
  A model that answers every tensor with one distribution; a deployment whose \<open>.h5\<close>
  file loads to it, and one without model files, whose placeholder network happens to
  compute the same.
\<close>

definition sample_model :: keras_model where
  "sample_model = (\<lambda>t. Inr [[1/10, 1/10, 1/10, 1/5, 1/10, 1/10, 1/10, 1/10, 1/10]])"

definition tf_real :: tf where
  "tf_real =
     \<lparr>load_h5 = Inr sample_model, compile = (\<lambda>m. Inr ()), path_exists = False,
      load_saved_model = Inl (Raised LibraryError ''No file or directory found''),
      Sequential = Inr sample_model\<rparr>"

definition tf_placeholder :: tf where
  "tf_placeholder =
     \<lparr>load_h5 = Inl (Raised LibraryError ''No file or directory found''),
      compile = (\<lambda>m. Inr ()), path_exists = False,
      load_saved_model = Inl (Raised LibraryError ''No file or directory found''),
      Sequential = Inr sample_model\<rparr>"

definition sample_web :: web where
  "sample_web =
     \<lparr>allowed_file = (\<lambda>n. True), secure_filename = (\<lambda>n. n),
      splitext = (\<lambda>n. (''lesion'', ''.png'')), path_join = (\<lambda>a b. a @ ''/'' @ b),
      uuid4 = ''0f8fad5b'', file_save = (\<lambda>p. Inr ()), now = ''2024-01-01 00:00:00''\<rparr>"

section \<open>Exceptions pass through\<close>

lemma try_bind_Inl [simp]: "try_bind (Inl e) f = Inl e"
  by (simp add: try_bind_def)

lemma try_bind_Inr [simp]: "try_bind (Inr x) f = f x"
  by (simp add: try_bind_def)

lemma try_bind_eq_Inr: "try_bind m f = Inr y \<longleftrightarrow> (\<exists>x. m = Inr x \<and> f x = Inr y)"
  by (cases m) simp_all

lemma try_bind_eq_Inl:
  "try_bind m f = Inl e \<longleftrightarrow> (m = Inl e \<or> (\<exists>x. m = Inr x \<and> f x = Inl e))"
  by (cases m) simp_all

section \<open>Properties of preprocess_image\<close>

text \<open>
  C1: for a valid image and a positive \<open>target_size = (h, w)\<close> the result is to have the
  shape \<open>(1, h, w, 3)\<close>. The code hands \<open>target_size\<close> to \<open>Image.resize\<close>, which reads it
  as \<open>(width, height)\<close>, while the array has the rows first: for an RGB image and
  \<open>target_size = (2, 3)\<close> the shape is \<open>(1, 3, 2, 3)\<close>. An image of mode LA (grey with
  alpha) keeps its two channels, which neither branch of the channel check covers.
\<close>

theorem preprocess_image_shape_at_2_by_3:
  "map_sum id shape (preprocess_image (uniform_pil Mode_RGB 200) ''lesion.png'' (2, 3))
     = Inr [1, 3, 2, 3]
   \<and> map_sum id shape (preprocess_image (uniform_pil Mode_LA 200) ''lesion.png'' (2, 3))
     = Inr [1, 3, 2, 2]"
  by (simp add: preprocess_image_def preprocess_image_body_def uniform_pil_def resize_def
      np_array_def expand_dims0_def Let_def)

lemma np_array_dims:
  "length (shape (np_array img)) < 3 \<Longrightarrow> length (shape (np_array img)) = 2"
  by (simp add: np_array_def Let_def split: prod.splits if_splits)

text \<open>
  The failures of \<open>preprocess_image\<close> are those of opening and of resizing, each handed
  on as it was raised; the index error of the channel check cannot occur.
\<close>

lemma preprocess_image_Inl_iff:
  "preprocess_image lib p ts = Inl e \<longleftrightarrow>
     (Image_open lib p = Inl e
      \<or> (\<exists>img. Image_open lib p = Inr img \<and> resize lib img ts = Inl e))"
proof -
  have body: "preprocess_image lib p ts = preprocess_image_body lib p ts"
    by (simp add: preprocess_image_def split: sum.splits)
  show ?thesis
    unfolding body preprocess_image_body_def
    by (auto simp: try_bind_eq_Inl Let_def split: if_splits dest: np_array_dims)
qed

text \<open>
  C9: when decoding or a transform step fails on the path, \<open>preprocess_image\<close> raises
  that error to its caller, and the upload handler, for a request that got as far as
  preprocessing, answers with the message that processing failed and a redirect to the
  upload page, storing no diagnosis.
\<close>

theorem preprocess_failure_fails_upload:
  assumes req: "file_field req = Some file_name" "file_name \<noteq> []" "allowed_file w file_name"
    and path: "file_path = path_join w (UPLOAD_FOLDER cfg)
                 (uuid4 w @ snd (splitext w (secure_filename w file_name)))"
    and saved: "file_save w file_path = Inr ()"
    and fails: "Image_open lib file_path = Inl e
                \<or> (\<exists>img. Image_open lib file_path = Inr img
                         \<and> resize lib img (180, 180) = Inl e)"
  shows "preprocess_image lib file_path (180, 180) = Inl e
         \<and> upload w lib tfl cfg nt req st =
             Inr (Redirect ''diagnosis.index'',
                  st\<lparr>flashes := flashes st @
                       [(''An error occurred during processing. Please try again.'',
                         ''error'')]\<rparr>)"
proof -
  have pre: "preprocess_image lib file_path (180, 180) = Inl e"
    using fails by (simp add: preprocess_image_Inl_iff)
  have "upload w lib tfl cfg nt req st =
          Inr (Redirect ''diagnosis.index'',
               flash ''An error occurred during processing. Please try again.'' ''error'' st)"
    using req saved pre unfolding upload_def path by (simp add: Let_def)
  then show ?thesis using pre by (simp add: flash_def)
qed

theorem preprocess_failure_fails_upload_witness:
  "preprocess_image unreadable_pil ''static/uploads/0f8fad5b.png'' (180, 180)
     = Inl (Raised LibraryError ''cannot identify image file'')
   \<and> upload sample_web unreadable_pil tf_real (sample_config []) (chat_net [])
        \<lparr>file_field = Some ''lesion.png''\<rparr>
        \<lparr>flashes = [], session_diagnosis_result = None, model_slot = None\<rparr>
      = Inr (Redirect ''diagnosis.index'',
             \<lparr>flashes = [(''An error occurred during processing. Please try again.'',
                          ''error'')],
              session_diagnosis_result = None, model_slot = None\<rparr>)"
  using preprocess_failure_fails_upload
    [of "\<lparr>file_field = Some ''lesion.png''\<rparr>" "''lesion.png''" sample_web
      "''static/uploads/0f8fad5b.png''" "sample_config []" unreadable_pil
      "Raised LibraryError ''cannot identify image file''" tf_real "chat_net []"
      "\<lparr>flashes = [], session_diagnosis_result = None, model_slot = None\<rparr>"]
  by (simp add: sample_web_def sample_config_def unreadable_pil_def)

section \<open>Properties of extract_features\<close>

text \<open>
  C3: the texture energy is to be the sum of the squared grey levels over the number
  of pixels. The code squares the \<open>uint8\<close> array, so each square is taken modulo 256: on
  one pixel of grey level 16 the energy is 0, where the sum of squares over the pixel
  count is 256. (The contrast of one pixel is 0 either way.)
\<close>

theorem texture_energy_at_grey_16:
  "features_texture
     (extract_features
        (sample_cv \<lparr>shape = [1, 1], data = [16]\<rparr> \<lparr>shape = [1, 1, 3], data = [0, 0, 16]\<rparr>
           [] 0 0 (0, 0, 0, 0))
        (UInt8_array \<lparr>shape = [1, 1, 3], data = [16, 16, 16]\<rparr>))
     = [(''contrast'', Finite 0), (''energy'', Finite 0)]
   \<and> (\<Sum>g\<leftarrow>[16 :: 8 word]. (real (unat g))\<^sup>2) / real (1 * 1) = 256"
  by (simp add: extract_features_def extract_features_body_def analyse_def shape_features_def
      sample_cv_def channel_def np_mean_def np_std_def np_square_def np_sum_def
      np_true_divide_def Let_def)

text \<open>
  C4: \<open>extract_features\<close> never raises; whatever error occurs inside it, the result has
  the colour, texture and shape mappings empty and carries the message of the error.
  (That it returns on every input is its type: it yields a feature set, not an error.)
\<close>

theorem extract_features_never_raises:
  "extract_features_body cv img_array = Inl e \<Longrightarrow>
     extract_features cv img_array =
       \<lparr>features_color = [], features_texture = [], features_shape = [],
        features_error = Some (str e)\<rparr>"
  by (simp add: extract_features_def)

theorem extract_features_never_raises_witness:
  "extract_features_body
     (sample_cv \<lparr>shape = [1, 1], data = [16]\<rparr> \<lparr>shape = [1, 1, 3], data = [0, 0, 16]\<rparr>
        [] 0 0 (0, 0, 0, 0))
     (UInt8_array \<lparr>shape = [2, 2], data = [1, 2, 3, 4]\<rparr>)
     = Inl (Raised IndexError ''tuple index out of range'')
   \<and> extract_features
       (sample_cv \<lparr>shape = [1, 1], data = [16]\<rparr> \<lparr>shape = [1, 1, 3], data = [0, 0, 16]\<rparr>
          [] 0 0 (0, 0, 0, 0))
       (UInt8_array \<lparr>shape = [2, 2], data = [1, 2, 3, 4]\<rparr>)
     = \<lparr>features_color = [], features_texture = [], features_shape = [],
        features_error = Some ''tuple index out of range''\<rparr>"
proof -
  have h: "extract_features_body
     (sample_cv \<lparr>shape = [1, 1], data = [16]\<rparr> \<lparr>shape = [1, 1, 3], data = [0, 0, 16]\<rparr>
        [] 0 0 (0, 0, 0, 0))
     (UInt8_array \<lparr>shape = [2, 2], data = [1, 2, 3, 4]\<rparr>)
     = Inl (Raised IndexError ''tuple index out of range'')"
    by (simp add: extract_features_body_def analyse_def)
  show ?thesis using h extract_features_never_raises [OF h] by simp
qed

text \<open>
  C7: when the code gets as far as the contours and none is found, all five shape
  values are 0 and no error is reported; the colour and texture values are the computed
  ones.
\<close>

theorem extract_features_no_contour:
  assumes "analyse cv img_array = Inr (color, texture, [])"
  shows "extract_features cv img_array =
           \<lparr>features_color = color, features_texture = texture,
            features_shape = [(''area'', Finite 0), (''perimeter'', Finite 0),
                              (''circularity'', Finite 0), (''aspect_ratio'', Finite 0),
                              (''solidity'', Finite 0)],
            features_error = None\<rparr>"
  using assms by (simp add: extract_features_def extract_features_body_def shape_features_def)

lemma analyse_white_pixel:
  "analyse
     (sample_cv \<lparr>shape = [1, 1], data = [255]\<rparr> \<lparr>shape = [1, 1, 3], data = [0, 0, 255]\<rparr>
        [] 0 0 (0, 0, 0, 0))
     (UInt8_array \<lparr>shape = [1, 1, 3], data = [255, 255, 255]\<rparr>)
   = Inr ([(''hue_avg'', Finite 0), (''saturation_avg'', Finite 0),
           (''value_avg'', Finite 255), (''hue_std'', Finite 0),
           (''saturation_std'', Finite 0), (''value_std'', Finite 0)],
          [(''contrast'', Finite 0), (''energy'', Finite 1)], [])"
  by (simp add: analyse_def sample_cv_def channel_def np_mean_def np_std_def np_square_def
      np_sum_def np_true_divide_def Let_def)

theorem extract_features_no_contour_witness:
  "extract_features
     (sample_cv \<lparr>shape = [1, 1], data = [255]\<rparr> \<lparr>shape = [1, 1, 3], data = [0, 0, 255]\<rparr>
        [] 0 0 (0, 0, 0, 0))
     (UInt8_array \<lparr>shape = [1, 1, 3], data = [255, 255, 255]\<rparr>)
   = \<lparr>features_color = [(''hue_avg'', Finite 0), (''saturation_avg'', Finite 0),
                        (''value_avg'', Finite 255), (''hue_std'', Finite 0),
                        (''saturation_std'', Finite 0), (''value_std'', Finite 0)],
      features_texture = [(''contrast'', Finite 0), (''energy'', Finite 1)],
      features_shape = [(''area'', Finite 0), (''perimeter'', Finite 0),
                        (''circularity'', Finite 0), (''aspect_ratio'', Finite 0),
                        (''solidity'', Finite 0)],
      features_error = None\<rparr>"
  by (rule extract_features_no_contour [OF analyse_white_pixel])

text \<open>
  C8: when a contour is found, the shape values come from the largest contour with each
  division guarded: circularity is \<open>4 \<pi> area / perimeter\<^sup>2\<close> for a positive perimeter
  and 0 otherwise, the aspect ratio is width over height of the bounding rectangle for a
  positive height and 0 otherwise, solidity is area over hull area for a positive hull
  area and 0 otherwise. A division by zero would be an error of the body; the result
  reports none.
\<close>

theorem extract_features_shape_guarded:
  assumes "analyse cv img_array = Inr (color, texture, contours)"
    and "contours \<noteq> []"
    and "max_key (contourArea cv) contours = Inr largest_contour"
    and "contourArea cv largest_contour = Inr area"
    and "arcLength cv largest_contour True = Inr perimeter"
    and "boundingRect cv largest_contour = Inr (x, y, w, h)"
    and "convexHull cv largest_contour = Inr hull_contour"
    and "contourArea cv hull_contour = Inr hull_area"
  shows "extract_features cv img_array =
           \<lparr>features_color = color, features_texture = texture,
            features_shape =
              [(''area'', Finite area), (''perimeter'', Finite perimeter),
               (''circularity'',
                  Finite (if perimeter > 0 then 4 * pi * area / perimeter\<^sup>2 else 0)),
               (''aspect_ratio'',
                  Finite (if h > 0 then real_of_int w / real_of_int h else 0)),
               (''solidity'', Finite (if hull_area > 0 then area / hull_area else 0))],
            features_error = None\<rparr>"
  using assms
  by (simp add: extract_features_def extract_features_body_def shape_features_def
      py_truediv_def)

lemma analyse_black_pixel:
  "analyse
     (sample_cv \<lparr>shape = [1, 1], data = [0]\<rparr> \<lparr>shape = [1, 1, 3], data = [0, 0, 0]\<rparr>
        [[(0, 0)]] 0 0 (0, 0, 1, 1))
     (UInt8_array \<lparr>shape = [1, 1, 3], data = [0, 0, 0]\<rparr>)
   = Inr ([(''hue_avg'', Finite 0), (''saturation_avg'', Finite 0),
           (''value_avg'', Finite 0), (''hue_std'', Finite 0),
           (''saturation_std'', Finite 0), (''value_std'', Finite 0)],
          [(''contrast'', Finite 0), (''energy'', Finite 0)], [[(0, 0)]])"
  by (simp add: analyse_def sample_cv_def channel_def np_mean_def np_std_def np_square_def
      np_sum_def np_true_divide_def Let_def)

text \<open>
  One black pixel: its contour is the single point, of area and length 0 in a bounding
  rectangle of one by one, so two of the guards apply and one division is made.
\<close>

theorem extract_features_shape_guarded_witness:
  "extract_features
     (sample_cv \<lparr>shape = [1, 1], data = [0]\<rparr> \<lparr>shape = [1, 1, 3], data = [0, 0, 0]\<rparr>
        [[(0, 0)]] 0 0 (0, 0, 1, 1))
     (UInt8_array \<lparr>shape = [1, 1, 3], data = [0, 0, 0]\<rparr>)
   = \<lparr>features_color = [(''hue_avg'', Finite 0), (''saturation_avg'', Finite 0),
                        (''value_avg'', Finite 0), (''hue_std'', Finite 0),
                        (''saturation_std'', Finite 0), (''value_std'', Finite 0)],
      features_texture = [(''contrast'', Finite 0), (''energy'', Finite 0)],
      features_shape = [(''area'', Finite 0), (''perimeter'', Finite 0),
                        (''circularity'', Finite 0), (''aspect_ratio'', Finite 1),
                        (''solidity'', Finite 0)],
      features_error = None\<rparr>"
  using extract_features_shape_guarded [OF analyse_black_pixel,
      of "[(0, 0)]" 0 0 0 0 1 1 "[(0, 0)]" 0]
  by (simp add: sample_cv_def max_key_def)

section \<open>Properties of get_groq_analysis\<close>

text \<open>
  C5: when the reply cannot be parsed and the attempt on the text between the first
  \<open>{\<close> and the last \<open>}\<close> fails too, an error marker is to be returned. For a reply
  without braces the code makes no attempt and runs to the end of the function: the
  result is \<open>None\<close>, which is also what a missing credential gives, not an error marker.
\<close>

theorem get_groq_analysis_without_braces:
  "get_groq_analysis (sample_config ''gsk_key'') (chat_net ''I cannot answer that.'')
     ''melanoma'' (9 / 10) = JNull"
  by (simp add: get_groq_analysis_def get_groq_analysis_body_def sample_config_def
      chat_net_def str_rfind_def Let_def)

text \<open>With braces around a text that is not JSON, the marker is returned.\<close>

lemma get_groq_analysis_with_braces:
  "get_groq_analysis (sample_config ''gsk_key'') (chat_net ''Here: {a} ok'')
     ''melanoma'' (9 / 10) = error_marker ''Failed to parse JSON from Groq response''"
  by (simp add: get_groq_analysis_def get_groq_analysis_body_def sample_config_def
      chat_net_def str_rfind_def str_slice_def Let_def)

text \<open>A status other than 200 and a failed request give a marker as well.\<close>

lemma get_groq_analysis_failures:
  assumes "GROQ_API_KEY cfg \<noteq> []"
  shows "requests_post nt
           \<lparr>url = ''https://api.groq.com/openai/v1/chat/completions'',
            authorization = ''Bearer '' @ GROQ_API_KEY cfg, request_model = GROQ_MODEL cfg,
            prompt_class = c, prompt_confidence = p, timeout = 30\<rparr> = Inl e
         \<Longrightarrow> get_groq_analysis cfg nt c p = error_marker (str e)"
    and "requests_post nt
           \<lparr>url = ''https://api.groq.com/openai/v1/chat/completions'',
            authorization = ''Bearer '' @ GROQ_API_KEY cfg, request_model = GROQ_MODEL cfg,
            prompt_class = c, prompt_confidence = p, timeout = 30\<rparr> = Inr r
         \<Longrightarrow> status_code r \<noteq> 200
         \<Longrightarrow> get_groq_analysis cfg nt c p =
               error_marker (''API request failed with status code '' @ str_int (status_code r))"
  using assms by (simp_all add: get_groq_analysis_def get_groq_analysis_body_def Let_def)

section \<open>Properties of load_model and predict_image\<close>

lemma load_model_real: "load_model tf_real None = (Inr sample_model, Some sample_model)"
  by (simp add: load_model_def tf_real_def)

lemma load_model_placeholder:
  "load_model tf_placeholder None = (Inr sample_model, Some sample_model)"
  by (simp add: load_model_def load_fallback_def create_dummy_model_def tf_placeholder_def)

text \<open>
  C6, as stated: a result produced after the fallback to the placeholder model can be
  told from one produced by a real model. It cannot: where the \<open>.h5\<close> file is missing and
  the placeholder is built, and where the file loads, the results on a tensor are equal
  when the two models answer it alike.
\<close>

theorem placeholder_result_equals_real_result:
  "load_h5 tf_placeholder = Inl (Raised LibraryError ''No file or directory found'')
   \<and> fst (load_model tf_placeholder None) = create_dummy_model tf_placeholder
   \<and> fst (load_model tf_real None) = load_h5 tf_real
   \<and> fst (predict_image tf_placeholder (sample_config []) (chat_net []) None
             \<lparr>shape = [1, 1, 1, 3], data = [0, 0, 0]\<rparr>)
     = fst (predict_image tf_real (sample_config []) (chat_net []) None
             \<lparr>shape = [1, 1, 1, 3], data = [0, 0, 0]\<rparr>)"
  by (simp add: predict_image_def predict_image_body_def load_model_real
      load_model_placeholder)
     (simp add: tf_placeholder_def tf_real_def create_dummy_model_def)

text \<open>
  C6, amended: the result of \<open>predict_image\<close> holds no trace of how the model was
  obtained. Two runs, from any two loading outcomes and states, give the same result
  whenever the models they end with return the same for the tensor (the settings and
  the API being the same).
\<close>

theorem predict_image_result_from_predictions:
  assumes "fst (load_model tfl1 st1) = Inr m1" and "fst (load_model tfl2 st2) = Inr m2"
    and "m1 image_array = m2 image_array"
  shows "fst (predict_image tfl1 cfg nt st1 image_array)
         = fst (predict_image tfl2 cfg nt st2 image_array)"
  using assms
  by (cases "load_model tfl1 st1"; cases "load_model tfl2 st2")
     (simp add: predict_image_def predict_image_body_def split: sum.splits)

theorem predict_image_result_from_predictions_witness:
  "fst (load_model tf_placeholder None) = Inr sample_model
   \<and> fst (load_model tf_real None) = Inr sample_model
   \<and> fst (predict_image tf_placeholder (sample_config ''gsk_key'') (chat_net ''{}'') None
             \<lparr>shape = [1, 1, 1, 3], data = [1, 1, 1]\<rparr>)
     = fst (predict_image tf_real (sample_config ''gsk_key'') (chat_net ''{}'') None
             \<lparr>shape = [1, 1, 1, 3], data = [1, 1, 1]\<rparr>)"
  using predict_image_result_from_predictions
    [of tf_placeholder None sample_model tf_real None sample_model
      "\<lparr>shape = [1, 1, 1, 3], data = [1, 1, 1]\<rparr>" "sample_config ''gsk_key''"
      "chat_net ''{}''"]
  by (simp add: load_model_real load_model_placeholder)

subsection \<open>Rounding and the greatest entry\<close>

lemma round_half_even_nonneg: "0 \<le> x \<Longrightarrow> 0 \<le> round_half_even x"
  by (simp add: round_half_even_def Let_def)

lemma round_half_even_le: "x \<le> of_int n \<Longrightarrow> round_half_even x \<le> n"
proof -
  assume le: "x \<le> of_int n"
  have fl: "\<lfloor>x\<rfloor> \<le> n" using le by (simp add: floor_le_iff)
  show ?thesis
  proof (cases "\<lfloor>x\<rfloor> = n")
    case True
    then have "x = of_int n" using le by linarith
    then show ?thesis by (simp add: round_half_even_def Let_def)
  next
    case False
    then have "\<lfloor>x\<rfloor> + 1 \<le> n" using fl by simp
    then show ?thesis using fl by (simp add: round_half_even_def Let_def)
  qed
qed

lemma py_round_percent:
  assumes "0 \<le> c" and "c \<le> 1"
  shows "0 \<le> py_round (c * 100) 2 \<and> py_round (c * 100) 2 \<le> 100"
proof -
  have lo: "0 \<le> round_half_even (c * 100 * 10 ^ 2)"
    using assms by (intro round_half_even_nonneg) simp
  have "c * 100 * 10 ^ 2 \<le> of_int 10000" using assms by simp
  then have hi: "round_half_even (c * 100 * 10 ^ 2) \<le> 10000"
    by (rule round_half_even_le)
  have "real_of_int (round_half_even (c * 100 * 10 ^ 2)) \<le> 10000"
    using hi by linarith
  then show ?thesis using lo by (simp add: py_round_def)
qed

text \<open>
  The scan of \<open>np.argmax\<close>, with \<open>pre\<close> the elements already seen: the index held is
  within them and no element seen exceeds the one it points to.
\<close>

lemma argmax_from_greatest:
  "best < length pre \<Longrightarrow> pre ! best = b \<Longrightarrow> \<forall>v\<in>set pre. v \<le> b \<Longrightarrow> i = length pre \<Longrightarrow>
     argmax_from best b i xs < length (pre @ xs)
     \<and> (\<forall>v\<in>set (pre @ xs). v \<le> (pre @ xs) ! argmax_from best b i xs)"
proof (induction xs arbitrary: pre best b i)
  case Nil
  then show ?case by simp
next
  case (Cons x xs)
  show ?case
  proof (cases "x > b")
    case True
    have "argmax_from i x (Suc i) xs < length ((pre @ [x]) @ xs)
          \<and> (\<forall>v\<in>set ((pre @ [x]) @ xs).
                v \<le> ((pre @ [x]) @ xs) ! argmax_from i x (Suc i) xs)"
      using Cons.prems True by (intro Cons.IH) (auto simp: nth_append)
    then show ?thesis using True by simp
  next
    case False
    have "argmax_from best b (Suc i) xs < length ((pre @ [x]) @ xs)
          \<and> (\<forall>v\<in>set ((pre @ [x]) @ xs).
                v \<le> ((pre @ [x]) @ xs) ! argmax_from best b (Suc i) xs)"
      using Cons.prems False by (intro Cons.IH) (auto simp: nth_append)
    then show ?thesis using False by simp
  qed
qed

lemma np_argmax_greatest:
  assumes "np_argmax row = Inr idx"
  shows "idx < length row \<and> (\<forall>v\<in>set row. v \<le> row ! idx)"
proof (cases row)
  case Nil
  then show ?thesis using assms by (simp add: np_argmax_def)
next
  case (Cons x rest)
  then have idx: "idx = argmax_from 0 x 1 rest" using assms by (simp add: np_argmax_def)
  show ?thesis
    using argmax_from_greatest [of 0 "[x]" x 1 rest] by (simp add: idx Cons)
qed

subsection \<open>The labels and the distribution\<close>

lemma distinct_class_labels: "distinct class_labels"
  by (simp add: class_labels_def)

lemma length_class_labels: "length class_labels = 9"
  by (simp add: class_labels_def)

lemma unknown_not_label: "''unknown'' \<notin> set class_labels"
  by (simp add: class_labels_def)

lemma update_fresh: "k \<notin> fst ` set al \<Longrightarrow> AList.update k v al = al @ [(k, v)]"
  by (induction al) auto

lemma probabilities_eq:
  "distinct is \<Longrightarrow> \<forall>i\<in>set is. i < length class_labels \<Longrightarrow>
   \<forall>i\<in>set is. class_labels ! i \<notin> fst ` set acc \<Longrightarrow>
   probabilities row is acc = Inr probs \<Longrightarrow>
     (\<forall>i\<in>set is. i < length row)
     \<and> probs = acc @ map (\<lambda>i. (class_labels ! i, row ! i)) is"
proof (induction "is" arbitrary: acc)
  case Nil
  then show ?case by simp
next
  case (Cons i rest)
  have i: "i < length class_labels" using Cons.prems by simp
  have irow: "i < length row" and
    rec: "probabilities row rest (AList.update (class_labels ! i) (row ! i) acc) = Inr probs"
    using Cons.prems(4) i by (auto simp: getitem_def split: if_splits)
  have upd: "AList.update (class_labels ! i) (row ! i) acc
             = acc @ [(class_labels ! i, row ! i)]"
    using Cons.prems by (intro update_fresh) simp
  have fresh:
    "\<forall>j\<in>set rest. class_labels ! j \<notin> fst ` set (acc @ [(class_labels ! i, row ! i)])"
    using Cons.prems i distinct_class_labels by (auto simp: nth_eq_iff_index_eq)
  have "(\<forall>j\<in>set rest. j < length row)
        \<and> probs = (acc @ [(class_labels ! i, row ! i)])
                   @ map (\<lambda>i. (class_labels ! i, row ! i)) rest"
    using Cons.prems fresh rec unfolding upd by (intro Cons.IH) auto
  then show ?case using irow by simp
qed

lemma probabilities_all:
  assumes "probabilities row [0..<length class_labels] [] = Inr probs"
  shows "length class_labels \<le> length row
         \<and> probs = zip class_labels (take (length class_labels) row)"
proof -
  have *: "(\<forall>i\<in>set [0..<length class_labels]. i < length row)
        \<and> probs = [] @ map (\<lambda>i. (class_labels ! i, row ! i)) [0..<length class_labels]"
    using assms by (intro probabilities_eq) auto
  then have len: "length class_labels \<le> length row"
    by (auto simp: length_class_labels)
  have "map (\<lambda>i. (class_labels ! i, row ! i)) [0..<length class_labels]
        = zip class_labels (take (length class_labels) row)"
    using len by (intro nth_equalityI) auto
  then show ?thesis using * len by simp
qed

subsection \<open>The two kinds of result\<close>

text \<open>
  A result of \<open>predict_image\<close> is the fallback one, or it is built from a row of the
  model's output whose first greatest entry has an index among the labels.
\<close>

lemma predict_image_cases:
  "(\<exists>e. fst (predict_image tfl cfg nt st x) =
          \<lparr>prediction = ''unknown'', confidence = 0, class_index = - 1,
           all_probabilities = [], additional_analysis = None,
           prediction_error = Some (str e)\<rparr>)
   \<or> (\<exists>model preds row idx a.
         fst (load_model tfl st) = Inr model \<and> model x = Inr preds \<and> row \<in> set preds
         \<and> np_argmax row = Inr idx \<and> idx < length class_labels
         \<and> probabilities row [0..<length class_labels] []
             = Inr (all_probabilities (fst (predict_image tfl cfg nt st x)))
         \<and> fst (predict_image tfl cfg nt st x) =
             \<lparr>prediction = class_labels ! idx, confidence = py_round (row ! idx * 100) 2,
              class_index = int idx,
              all_probabilities = all_probabilities (fst (predict_image tfl cfg nt st x)),
              additional_analysis = Some a, prediction_error = None\<rparr>)"
proof (cases "predict_image_body tfl cfg nt st x")
  case (Pair res st')
  show ?thesis
  proof (cases res)
    case (Inl e)
    then show ?thesis using Pair by (auto simp: predict_image_def)
  next
    case (Inr r)
    obtain lm st'' where lm: "load_model tfl st = (lm, st'')" by (cases "load_model tfl st")
    from Pair Inr lm obtain model where model: "lm = Inr model"
      by (cases lm) (auto simp: predict_image_body_def)
    from Pair Inr lm model obtain preds row idx c lab probs where
      steps: "model x = Inr preds" "getitem preds 0 = Inr row" "np_argmax row = Inr idx"
        "getitem row idx = Inr c" "getitem class_labels idx = Inr lab"
        "probabilities row [0..<length class_labels] [] = Inr probs"
      and r: "r = \<lparr>prediction = lab, confidence = py_round (c * 100) 2,
         class_index = int idx, all_probabilities = probs,
         additional_analysis =
           Some (if GROQ_API_KEY cfg \<noteq> [] then get_groq_analysis cfg nt lab c else JNull),
         prediction_error = None\<rparr>"
      by (auto simp: predict_image_body_def try_bind_eq_Inr Let_def)
    have res: "fst (predict_image tfl cfg nt st x) = r"
      using Pair Inr by (simp add: predict_image_def)
    have "row \<in> set preds" "idx < length class_labels" "lab = class_labels ! idx"
      "c = row ! idx"
      using steps by (auto simp: getitem_def split: if_splits)
    then show ?thesis
      using steps lm model unfolding res r by auto
  qed
qed

text \<open>
  C2: whatever the tensor, the confidence of the result lies in \<open>[0, 100]\<close>, the class
  index is one of \<open>-1, 0, ..., 8\<close>, and it is \<open>-1\<close> exactly when the label is
  \<open>unknown\<close>. The bound on the confidence is that of the model's output, a probability
  distribution; the other two parts hold for any output.
\<close>

theorem predict_image_ranges:
  assumes probs: "\<And>m. fst (load_model tfl st) = Inr m \<Longrightarrow> probability_rows (m image_array)"
  shows "0 \<le> confidence (fst (predict_image tfl cfg nt st image_array))
         \<and> confidence (fst (predict_image tfl cfg nt st image_array)) \<le> 100
         \<and> class_index (fst (predict_image tfl cfg nt st image_array))
             \<in> {- 1, 0, 1, 2, 3, 4, 5, 6, 7, 8}
         \<and> (class_index (fst (predict_image tfl cfg nt st image_array)) = - 1
              \<longleftrightarrow> prediction (fst (predict_image tfl cfg nt st image_array)) = ''unknown'')"
  using predict_image_cases [of tfl cfg nt st image_array]
proof (elim disjE exE conjE)
  fix e
  assume "fst (predict_image tfl cfg nt st image_array) =
          \<lparr>prediction = ''unknown'', confidence = 0, class_index = - 1,
           all_probabilities = [], additional_analysis = None,
           prediction_error = Some (str e)\<rparr>"
  then show ?thesis by simp
next
  fix model preds row idx a
  assume model: "fst (load_model tfl st) = Inr model" "model image_array = Inr preds"
    and row: "row \<in> set preds" and idx: "np_argmax row = Inr idx" "idx < length class_labels"
    and res: "fst (predict_image tfl cfg nt st image_array) =
             \<lparr>prediction = class_labels ! idx, confidence = py_round (row ! idx * 100) 2,
              class_index = int idx,
              all_probabilities =
                all_probabilities (fst (predict_image tfl cfg nt st image_array)),
              additional_analysis = Some a, prediction_error = None\<rparr>"
  have "idx < length row" using np_argmax_greatest [OF idx(1)] by simp
  then have "row ! idx \<in> set row" by simp
  moreover have "\<forall>row\<in>set preds. \<forall>v\<in>set row. 0 \<le> v \<and> v \<le> 1"
    using probs [OF model(1)] model(2) by (simp add: probability_rows_def)
  ultimately have "0 \<le> row ! idx \<and> row ! idx \<le> 1" using row by blast
  then have conf: "0 \<le> py_round (row ! idx * 100) 2 \<and> py_round (row ! idx * 100) 2 \<le> 100"
    using py_round_percent by blast
  have "class_labels ! idx \<in> set class_labels" using idx(2) by simp
  then have lab: "class_labels ! idx \<noteq> ''unknown''" using unknown_not_label by metis
  have "idx < 9" using idx(2) by (simp add: length_class_labels)
  then have ci: "int idx \<in> {- 1, 0, 1, 2, 3, 4, 5, 6, 7, 8}" "int idx \<noteq> - 1" by auto
  show ?thesis
    by (subst res, subst res, subst res, subst res, subst res) (use conf lab ci in simp)
qed

theorem predict_image_ranges_witness:
  "0 \<le> confidence (fst (predict_image tf_real (sample_config []) (chat_net []) None
                          \<lparr>shape = [1, 1, 1, 3], data = [0, 0, 0]\<rparr>))
   \<and> confidence (fst (predict_image tf_real (sample_config []) (chat_net []) None
                          \<lparr>shape = [1, 1, 1, 3], data = [0, 0, 0]\<rparr>)) \<le> 100
   \<and> class_index (fst (predict_image tf_real (sample_config []) (chat_net []) None
                          \<lparr>shape = [1, 1, 1, 3], data = [0, 0, 0]\<rparr>))
       \<in> {- 1, 0, 1, 2, 3, 4, 5, 6, 7, 8}
   \<and> (class_index (fst (predict_image tf_real (sample_config []) (chat_net []) None
                          \<lparr>shape = [1, 1, 1, 3], data = [0, 0, 0]\<rparr>)) = - 1
        \<longleftrightarrow> prediction (fst (predict_image tf_real (sample_config []) (chat_net []) None
                          \<lparr>shape = [1, 1, 1, 3], data = [0, 0, 0]\<rparr>)) = ''unknown'')"
  by (rule predict_image_ranges)
     (auto simp: load_model_real sample_model_def probability_rows_def)

text \<open>On that tensor the label is the fourth one, at 20 per cent.\<close>

lemma predict_image_sample:
  "fst (predict_image tf_real (sample_config []) (chat_net []) None
          \<lparr>shape = [1, 1, 1, 3], data = [0, 0, 0]\<rparr>)
   = \<lparr>prediction = ''melanoma'', confidence = 20, class_index = 3,
      all_probabilities = zip class_labels [1/10, 1/10, 1/10, 1/5, 1/10, 1/10, 1/10, 1/10, 1/10],
      additional_analysis = Some JNull, prediction_error = None\<rparr>"
  by (simp add: predict_image_def predict_image_body_def load_model_real sample_model_def
      getitem_def np_argmax_def class_labels_def sample_config_def py_round_def
      round_half_even_def)

text \<open>
  C10: in a result without error, the confidence is 100 times the probability that the
  distribution gives the predicted label, rounded to two places, and no entry of the
  distribution, which has the nine labels as its keys, is greater than that probability.
\<close>

theorem confidence_is_rounded_greatest_probability:
  assumes "fst (predict_image tfl cfg nt st image_array) = r" and "prediction_error r = None"
  shows "\<exists>p. map_of (all_probabilities r) (prediction r) = Some p
             \<and> confidence r = py_round (100 * p) 2
             \<and> map fst (all_probabilities r) = class_labels
             \<and> length (all_probabilities r) = 9
             \<and> (\<forall>q\<in>snd ` set (all_probabilities r). q \<le> p)"
  using predict_image_cases [of tfl cfg nt st image_array]
proof (elim disjE exE conjE)
  fix e
  assume "fst (predict_image tfl cfg nt st image_array) =
          \<lparr>prediction = ''unknown'', confidence = 0, class_index = - 1,
           all_probabilities = [], additional_analysis = None,
           prediction_error = Some (str e)\<rparr>"
  then show ?thesis using assms by auto
next
  fix model preds row idx a
  assume idx: "np_argmax row = Inr idx" "idx < length class_labels"
    and pr: "probabilities row [0..<length class_labels] []
               = Inr (all_probabilities (fst (predict_image tfl cfg nt st image_array)))"
    and res: "fst (predict_image tfl cfg nt st image_array) =
             \<lparr>prediction = class_labels ! idx, confidence = py_round (row ! idx * 100) 2,
              class_index = int idx,
              all_probabilities =
                all_probabilities (fst (predict_image tfl cfg nt st image_array)),
              additional_analysis = Some a, prediction_error = None\<rparr>"
  define probs where "probs = all_probabilities r"
  have r: "prediction r = class_labels ! idx" "confidence r = py_round (row ! idx * 100) 2"
    using res assms(1)
    by (metis prediction_result.select_convs(1), metis prediction_result.select_convs(2))
  have len: "length class_labels \<le> length row"
    and probs: "probs = zip class_labels (take (length class_labels) row)"
    using probabilities_all [OF pr] assms(1) by (simp_all add: probs_def)
  have greatest: "\<forall>v\<in>set row. v \<le> row ! idx" using np_argmax_greatest [OF idx(1)] by simp
  have lookup: "map_of probs (class_labels ! idx) = Some (row ! idx)"
    unfolding probs using idx(2) len distinct_class_labels
    by (subst map_of_zip_nth) auto
  have l9: "length probs = 9" unfolding probs using len by (simp add: length_class_labels)
  have keys: "map fst probs = class_labels"
    unfolding probs using len by (simp add: map_fst_zip_take min_absorb1)
  have "snd ` set probs \<subseteq> set row"
    unfolding probs by (auto dest!: set_zip_rightD in_set_takeD)
  then have mx: "\<forall>q\<in>snd ` set probs. q \<le> row ! idx" using greatest by blast
  show ?thesis
    using lookup l9 keys mx r unfolding probs_def by (auto simp: mult.commute)
qed

theorem confidence_is_rounded_greatest_probability_witness:
  "map_of (all_probabilities (fst (predict_image tf_real (sample_config []) (chat_net [])
             None \<lparr>shape = [1, 1, 1, 3], data = [0, 0, 0]\<rparr>))) ''melanoma'' = Some (1 / 5)
   \<and> confidence (fst (predict_image tf_real (sample_config []) (chat_net []) None
                          \<lparr>shape = [1, 1, 1, 3], data = [0, 0, 0]\<rparr>)) = 20"
proof -
  let ?r = "fst (predict_image tf_real (sample_config []) (chat_net []) None
                          \<lparr>shape = [1, 1, 1, 3], data = [0, 0, 0]\<rparr>)"
  have ev: "prediction_error ?r = None \<and> prediction ?r = ''melanoma''
            \<and> map_of (all_probabilities ?r) ''melanoma'' = Some (1 / 5)"
    by (simp add: predict_image_def predict_image_body_def load_model_real sample_model_def
        getitem_def np_argmax_def class_labels_def sample_config_def)
  have r5: "py_round (100 * (1 / 5)) 2 = 20"
    by (simp add: py_round_def round_half_even_def)
  from ev have e: "prediction_error ?r = None" by simp
  from confidence_is_rounded_greatest_probability [OF refl e] obtain p where
    p: "map_of (all_probabilities ?r) (prediction ?r) = Some p"
      "confidence ?r = py_round (100 * p) 2"
    by blast
  have pv: "p = 1 / 5" using p(1) ev by simp
  have "confidence ?r = py_round (100 * (1 / 5)) 2" using p(2) by (simp only: pv)
  then have "confidence ?r = 20" by (simp only: r5)
  then show ?thesis using ev by blast
qed

end
